theory Spec2Isabelle
  imports Main "HOL-Library.AList"
begin

section \<open>Values shared by the two source files\<close>

text \<open>
  Go's \<^verbatim>\<open>[]byte\<close> is a list of characters. A Go \<^verbatim>\<open>error\<close> is an interface value: a
  dynamic type and, for the caller, a message. \<^verbatim>\<open>flag.ErrHelp\<close> and
  \<^verbatim>\<open>&options.KeyParseError{}\<close> get constructors of their own; \<open>Err msg\<close> is the value
  \<^verbatim>\<open>errors.New(msg)\<close> of the errors package makes; \<^verbatim>\<open>errors.Wrap(err, msg)\<close> keeps its
  cause. An error value of a library's own type (the query engine's loading and
  compilation errors, the JSON decoder's syntax errors) is a \<open>lib_error\<close>, the name of
  its Go type with its message, and \<open>Lib\<close> is that value seen as an \<^verbatim>\<open>error\<close>.
\<close>

type_synonym bytes = string

datatype lib_error = LibError string string

datatype error =
    ErrHelp
  | KeyParseError
  | Err string
  | Wrap error string
  | Lib lib_error

text \<open>An \<^verbatim>\<open>io.Reader\<close> is the bytes it yields; \<open>None\<close> is the nil reader.\<close>

type_synonym Reader = "bytes option"

datatype VerifyOption = VerifyOption string

section \<open>The envelope-aware verifier (verify\_attestation.go, lines 54 to 63)\<close>

text \<open>
  \<^verbatim>\<open>signature.Verifier\<close> is an interface of the sigstore library; the method the adapter
  forwards to is a field of the record.
\<close>

record Verifier =
  Verifier_VerifySignature :: "Reader \<Rightarrow> Reader \<Rightarrow> VerifyOption list \<Rightarrow> error option"

record reverseDSSEVerifier =
  Verifier :: Verifier

definition VerifySignature ::
  "reverseDSSEVerifier \<Rightarrow> Reader \<Rightarrow> Reader \<Rightarrow> VerifyOption list \<Rightarrow> error option" where
  "VerifySignature w s m opts = Verifier_VerifySignature (Verifier w) m None opts"

section \<open>Generic JSON values and the standard decoder\<close>

text \<open>
  What \<^verbatim>\<open>encoding/json\<close> decodes into an \<^verbatim>\<open>interface{}\<close>: nil, bool, float64,
  \<^verbatim>\<open>json.Number\<close> (the literal's text), string, slice and map. A float64 is carried as
  mantissa and exponent and never computed with.
\<close>

datatype float64 = Float64 int int

datatype jvalue =
    JNull
  | JBool bool
  | JFloat float64
  | JNumber string
  | JString string
  | JArray "jvalue list"
  | JObject "(string \<times> jvalue) list"

text \<open>
  \<^verbatim>\<open>json.NewDecoder\<close>, \<^verbatim>\<open>UseNumber\<close> and \<^verbatim>\<open>Decode\<close> belong to Go's standard library;
  they are written here after the library's documented behaviour, as far as rego.go
  depends on it. The decoder's scanner, which delimits the next JSON value of its input
  and checks its syntax, is a parameter, and so is \<^verbatim>\<open>strconv.ParseFloat\<close>. The scanner's
  result is the value's syntax tree, in which a number is still the text of its literal.
\<close>

datatype raw =
    RNull
  | RBool bool
  | RNumber string
  | RString string
  | RArray "raw list"
  | RObject "(string \<times> raw) list"

record Decoder =
  buf :: bytes
  useNumber :: bool

definition NewDecoder :: "bytes \<Rightarrow> Decoder" where
  "NewDecoder b = \<lparr>buf = b, useNumber = False\<rparr>"

definition UseNumber :: "Decoder \<Rightarrow> Decoder" where
  "UseNumber dec = dec\<lparr>useNumber := True\<rparr>"

text \<open>
  \<^verbatim>\<open>convertNumber\<close>: with \<^verbatim>\<open>UseNumber\<close> the literal is kept as a \<^verbatim>\<open>json.Number\<close>,
  otherwise it goes through \<^verbatim>\<open>strconv.ParseFloat\<close> (a parameter), whose failure is the
  decode's error.
\<close>

definition convertNumber ::
  "(string \<Rightarrow> lib_error + float64) \<Rightarrow> bool \<Rightarrow> string \<Rightarrow> lib_error + jvalue" where
  "convertNumber parseFloat un s =
     (if un then Inr (JNumber s)
      else (case parseFloat s of Inl err \<Rightarrow> Inl err | Inr f \<Rightarrow> Inr (JFloat f)))"

text \<open>
  \<^verbatim>\<open>valueInterface\<close>, \<^verbatim>\<open>arrayInterface\<close> and \<^verbatim>\<open>objectInterface\<close>: an object is
  built by assigning its members to a map in order, so a repeated key keeps its last
  value.
\<close>

fun valueInterface ::
    "(string \<Rightarrow> lib_error + float64) \<Rightarrow> bool \<Rightarrow> raw \<Rightarrow> lib_error + jvalue"
  and arrayInterface ::
    "(string \<Rightarrow> lib_error + float64) \<Rightarrow> bool \<Rightarrow> raw list \<Rightarrow> lib_error + jvalue list"
  and objectInterface ::
    "(string \<Rightarrow> lib_error + float64) \<Rightarrow> bool \<Rightarrow> (string \<times> raw) list \<Rightarrow>
       (string \<times> jvalue) list \<Rightarrow> lib_error + (string \<times> jvalue) list" where
  "valueInterface pf un RNull = Inr JNull"
| "valueInterface pf un (RBool b) = Inr (JBool b)"
| "valueInterface pf un (RNumber s) = convertNumber pf un s"
| "valueInterface pf un (RString s) = Inr (JString s)"
| "valueInterface pf un (RArray ts) =
     (case arrayInterface pf un ts of Inl err \<Rightarrow> Inl err | Inr vs \<Rightarrow> Inr (JArray vs))"
| "valueInterface pf un (RObject kts) =
     (case objectInterface pf un kts [] of Inl err \<Rightarrow> Inl err | Inr m \<Rightarrow> Inr (JObject m))"
| "arrayInterface pf un [] = Inr []"
| "arrayInterface pf un (t # ts) =
     (case valueInterface pf un t of
        Inl err \<Rightarrow> Inl err
      | Inr v \<Rightarrow>
          (case arrayInterface pf un ts of Inl err \<Rightarrow> Inl err | Inr vs \<Rightarrow> Inr (v # vs)))"
| "objectInterface pf un [] m = Inr m"
| "objectInterface pf un ((k, t) # kts) m =
     (case valueInterface pf un t of
        Inl err \<Rightarrow> Inl err
      | Inr v \<Rightarrow> objectInterface pf un kts (AList.update k v m))"

section \<open>The query-based policy evaluator (rego.go)\<close>

text \<open>
  The query engine is a library: \<^verbatim>\<open>rego.New\<close> collects the query and the paths to
  load, \<^verbatim>\<open>PrepareForEval\<close> reads and compiles them, \<^verbatim>\<open>Eval\<close> runs the prepared query on
  an input and yields a result set. The errors of the engine and of the decoder are
  values of these libraries' own types.
\<close>

record Rego =
  Query :: string
  Load :: "string list"

datatype PreparedEvalQuery = PreparedEvalQuery Rego

record ExpressionValue =
  Value :: jvalue
  Text :: string

record Result =
  Expressions :: "ExpressionValue list"
  Bindings :: "(string \<times> jvalue) list"

type_synonym ResultSet = "Result list"

text \<open>
  Modelled from the spec: \<^verbatim>\<open>ResultSet.Allowed\<close> is the query engine's own method and
  is not among the sources. The spec: the input is allowed "only if the result set
  explicitly marks it allowed; an empty result set or any other shape is a failure".
  A result set marks the input allowed when it has exactly one result, that result has no
  bindings and exactly one expression, and that expression's value is the boolean true.
\<close>

definition Allowed :: "ResultSet \<Rightarrow> bool" where
  "Allowed rs =
     (case rs of
        [r] \<Rightarrow>
          (if Bindings r = [] then
             (case Expressions r of
                [e] \<Rightarrow> (case Value e of JBool b \<Rightarrow> b | _ \<Rightarrow> False)
              | _ \<Rightarrow> False)
           else False)
      | _ \<Rightarrow> False)"

record rego_env =
  scan :: "bytes \<Rightarrow> lib_error + raw"
  ParseFloat :: "string \<Rightarrow> lib_error + float64"
  PrepareForEval :: "Rego \<Rightarrow> lib_error + PreparedEvalQuery"
  Eval :: "PreparedEvalQuery \<Rightarrow> jvalue \<Rightarrow> lib_error + ResultSet"

definition Decode :: "rego_env \<Rightarrow> Decoder \<Rightarrow> lib_error + jvalue" where
  "Decode env dec =
     (case scan env (buf dec) of
        Inl err \<Rightarrow> Inl err
      | Inr t \<Rightarrow> valueInterface (ParseFloat env) (useNumber dec) t)"

definition rego_New :: "string \<Rightarrow> string list \<Rightarrow> Rego" where
  "rego_New q paths = \<lparr>Query = q, Load = paths\<rparr>"

definition ValidateJSON :: "rego_env \<Rightarrow> bytes \<Rightarrow> string list \<Rightarrow> error option" where
  "ValidateJSON env jsonBody entrypoints =
     (let r = rego_New ''data.signature.allow'' entrypoints in
      case PrepareForEval env r of
        Inl err \<Rightarrow> Some (Lib err)
      | Inr query \<Rightarrow>
          (let dec = UseNumber (NewDecoder jsonBody) in
           case Decode env dec of
             Inl err \<Rightarrow> Some (Lib err)
           | Inr input \<Rightarrow>
               (case Eval env query input of
                  Inl err \<Rightarrow> Some (Lib err)
                | Inr rs \<Rightarrow>
                    if Allowed rs then None else Some (Err ''rego validation failed''))))"

section \<open>The verification command (verify\_attestation.go)\<close>

subsection \<open>Data\<close>

text \<open>Values the command only passes along are opaque: a constructor around a name.\<close>

datatype RegistryOptions = MkRegistryOptions string
datatype RemoteOption = MkRemoteOption string
datatype CertPool = MkCertPool string
datatype Reference = MkReference string
datatype Signature = MkSignature string
datatype Key = MkKey string
datatype ClaimVerifier = IntotoSubjectClaimVerifier

record VerifyAttestationCommand =
  RegistryOptions :: RegistryOptions
  CheckClaims :: bool
  KeyRef :: string
  Sk :: bool
  Slot :: string
  Output :: string
  FulcioURL :: string
  RekorURL :: string
  PredicateType :: string
  Policies :: "string list"

record CheckOpts =
  RegistryClientOpts :: "RemoteOption list"
  ClaimVerifier :: "ClaimVerifier option"
  co_RekorURL :: string
  RootCerts :: "CertPool option"
  SigVerifier :: "reverseDSSEVerifier option"

text \<open>
  The four statement types of the in-toto library share a header and differ in the type of
  their \<^verbatim>\<open>Predicate\<close> field, whose content is carried as a JSON value.
\<close>

record Subject =
  Name :: string
  Digest :: "(string \<times> string) list"

record Statement =
  header_Type :: string
  header_PredicateType :: string
  header_Subject :: "Subject list"
  Predicate :: jvalue

text \<open>
  Modelled from the spec: the constants \<^verbatim>\<open>options.PredicateCustom\<close>,
  \<^verbatim>\<open>PredicateLink\<close>, \<^verbatim>\<open>PredicateSLSA\<close> and \<^verbatim>\<open>PredicateSPDX\<close> are not among the
  sources; the spec names the four recognized identifiers custom, link, slsaprovenance
  and spdx.
\<close>

definition PredicateCustom :: string where "PredicateCustom = ''custom''"
definition PredicateLink :: string where "PredicateLink = ''link''"
definition PredicateSLSA :: string where "PredicateSLSA = ''slsaprovenance''"
definition PredicateSPDX :: string where "PredicateSPDX = ''spdx''"

text \<open>
  Modelled from the spec: \<^verbatim>\<open>options.OneOf\<close> and the \<^verbatim>\<open>NOf\<close> it counts with are not
  among the sources. The spec calls the mode in which the check fails keyless, "no
  explicit key or hardware slot supplied"; by its name the function holds when exactly
  one of its arguments is set, an argument being set when it is not its type's zero value.
\<close>

definition NOf :: "bool list \<Rightarrow> nat" where
  "NOf args = length (filter (\<lambda>a. a) args)"

definition OneOf :: "bool list \<Rightarrow> bool" where
  "OneOf args = (NOf args = 1)"

subsection \<open>Collaborators and the call log\<close>

text \<open>
  Everything the command calls outside its own file is a field of the environment, a
  function of its arguments. The table \<^verbatim>\<open>options.PredicateTypeMap\<close> and the flag
  \<^verbatim>\<open>options.EnableExperimental()\<close> are fields too. Every call is recorded, in order,
  in a log of events, the calls of the pure library functions included.
\<close>

record exec_env =
  EnableExperimental :: bool
  PredicateTypeMap :: "string \<rightharpoonup> string"
  ClientOpts :: "RegistryOptions \<Rightarrow> error + RemoteOption list"
  GetRoots :: CertPool
  PublicKeyFromKeyRef :: "string \<Rightarrow> error + Verifier"
  GetKeyWithSlot :: "string \<Rightarrow> error + Key"
  Key_Verifier :: "Key \<Rightarrow> error + Verifier"
  WrapVerifier :: "Verifier option \<Rightarrow> Verifier"
  ParseReference :: "string \<Rightarrow> error + Reference"
  VerifyAttestations :: "Reference \<Rightarrow> CheckOpts \<Rightarrow> error + (Signature list \<times> bool)"
  Payload :: "Signature \<Rightarrow> error + bytes"
  Unmarshal_map :: "bytes \<Rightarrow> error + (string \<rightharpoonup> jvalue)"
  DecodeString :: "string \<Rightarrow> error + bytes"
  Unmarshal_Statement :: "bytes \<Rightarrow> error + Statement"
  Unmarshal_LinkStatement :: "bytes \<Rightarrow> error + Statement"
  Unmarshal_ProvenanceStatement :: "bytes \<Rightarrow> error + Statement"
  Unmarshal_SPDXStatement :: "bytes \<Rightarrow> error + Statement"
  Marshal :: "jvalue \<Rightarrow> error + bytes"
  cue_ValidateJSON :: "bytes \<Rightarrow> string list \<Rightarrow> error option"

datatype event =
    CallClientOpts
  | CallGetRoots
  | CallPublicKeyFromKeyRef string
  | CallGetKeyWithSlot string
  | CallKeyVerifier Key
  | CallClose Key
  | CallParseReference string
  | CallVerifyAttestations Reference
  | CallPayload Signature
  | CallUnmarshalMap bytes
  | CallDecodeString string
  | CallUnmarshalStatement string bytes
  | CallMarshal jvalue
  | CallValidateJSON bytes "string list"
  | CallPrintVerificationHeader string bool
  | CallPrintVerification string "Signature list" string

text \<open>How \<^verbatim>\<open>Exec\<close> ends: it returns its error (nil is \<open>None\<close>), or it panics.\<close>

datatype outcome = Return "error option" | Panic

definition emit :: "event list \<Rightarrow> 'a \<times> event list \<Rightarrow> 'a \<times> event list" where
  "emit evs r = (fst r, evs @ snd r)"

text \<open>A deferred call runs when the function is left, by a return or by a panic.\<close>

definition deferred :: "event list \<Rightarrow> 'a \<times> event list \<Rightarrow> 'a \<times> event list" where
  "deferred evs r = (fst r, snd r @ evs)"

subsection \<open>The loop body: one verified attestation (lines 127 to 185)\<close>

text \<open>Go's map index: the zero value for a key that is not there.\<close>

definition index_string :: "(string \<rightharpoonup> string) \<Rightarrow> string \<Rightarrow> string" where
  "index_string m k = (case m k of None \<Rightarrow> [] | Some v \<Rightarrow> v)"

text \<open>
  A string compared with an \<^verbatim>\<open>interface{}\<close> read from a map: equal when the interface
  holds a string of the same content; a missing key gives the nil interface.
\<close>

definition string_eq_interface :: "string \<Rightarrow> jvalue option \<Rightarrow> bool" where
  "string_eq_interface s v = (v = Some (JString s))"

text \<open>\<^verbatim>\<open>payload, _ := json.Marshal(x)\<close>: on an error the bytes are nil.\<close>

definition Marshal_bytes :: "exec_env \<Rightarrow> jvalue \<Rightarrow> bytes" where
  "Marshal_bytes env x = (case Marshal env x of Inl err \<Rightarrow> [] | Inr b \<Rightarrow> b)"

text \<open>
  The body the four cases of the switch share: unmarshal into the case's statement type,
  marshal its \<^verbatim>\<open>Predicate\<close>, validate. \<open>None\<close> is "go on with the next attestation".
\<close>

definition validate_statement ::
  "exec_env \<Rightarrow> VerifyAttestationCommand \<Rightarrow> (bytes \<Rightarrow> error + Statement) \<Rightarrow> bytes \<Rightarrow>
     outcome option \<times> event list" where
  "validate_statement env c unmarshal decodedPayload =
     emit [CallUnmarshalStatement (PredicateType c) decodedPayload]
       (case unmarshal decodedPayload of
          Inl err \<Rightarrow> (Some (Return (Some err)), [])
        | Inr statement \<Rightarrow>
            (let payload = Marshal_bytes env (Predicate statement) in
             emit [CallMarshal (Predicate statement), CallValidateJSON payload (Policies c)]
               (case cue_ValidateJSON env payload (Policies c) of
                  Some err \<Rightarrow> (Some (Return (Some err)), [])
                | None \<Rightarrow> (None, []))))"

definition switch_PredicateType ::
  "exec_env \<Rightarrow> VerifyAttestationCommand \<Rightarrow> bytes \<Rightarrow> outcome option \<times> event list" where
  "switch_PredicateType env c decodedPayload =
     (if PredicateType c = PredicateCustom then
        validate_statement env c (Unmarshal_Statement env) decodedPayload
      else if PredicateType c = PredicateLink then
        validate_statement env c (Unmarshal_LinkStatement env) decodedPayload
      else if PredicateType c = PredicateSLSA then
        validate_statement env c (Unmarshal_ProvenanceStatement env) decodedPayload
      else if PredicateType c = PredicateSPDX then
        validate_statement env c (Unmarshal_SPDXStatement env) decodedPayload
      else (None, []))"

definition verify_one ::
  "exec_env \<Rightarrow> VerifyAttestationCommand \<Rightarrow> Signature \<Rightarrow> outcome option \<times> event list" where
  "verify_one env c vp =
     emit [CallPayload vp]
       (case Payload env vp of
          Inl err \<Rightarrow> (Some (Return (Some err)), [])
        | Inr payload \<Rightarrow>
            emit [CallUnmarshalMap payload]
              (case Unmarshal_map env payload of
                 Inl err \<Rightarrow> (Some (Return (Some err)), [])
               | Inr payloadData \<Rightarrow>
                   if \<not> string_eq_interface
                          (index_string (PredicateTypeMap env) (PredicateType c))
                          (payloadData ''payloadType'')
                   then (None, [])
                   else
                     (case payloadData ''payload'' of
                        Some (JString encoded) \<Rightarrow>
                          emit [CallDecodeString encoded]
                            (case DecodeString env encoded of
                               Inl err \<Rightarrow> (Some (Return (Some err)), [])
                             | Inr decodedPayload \<Rightarrow>
                                 switch_PredicateType env c decodedPayload)
                      | _ \<Rightarrow> (Some Panic, []))))"

subsection \<open>The loops and Exec (lines 66 to 195)\<close>

fun verified_loop ::
  "exec_env \<Rightarrow> VerifyAttestationCommand \<Rightarrow> Signature list \<Rightarrow> outcome option \<times> event list" where
  "verified_loop env c [] = (None, [])"
| "verified_loop env c (vp # vps) =
     (case verify_one env c vp of
        (Some out, log) \<Rightarrow> (Some out, log)
      | (None, log) \<Rightarrow> emit log (verified_loop env c vps))"

fun images_loop ::
  "exec_env \<Rightarrow> VerifyAttestationCommand \<Rightarrow> CheckOpts \<Rightarrow> string list \<Rightarrow> outcome \<times> event list" where
  "images_loop env c co [] = (Return None, [])"
| "images_loop env c co (imageRef # images) =
     emit [CallParseReference imageRef]
       (case ParseReference env imageRef of
          Inl err \<Rightarrow> (Return (Some err), [])
        | Inr ref \<Rightarrow>
            emit [CallVerifyAttestations ref]
              (case VerifyAttestations env ref co of
                 Inl err \<Rightarrow> (Return (Some err), [])
               | Inr (verified, bundleVerified) \<Rightarrow>
                   (case verified_loop env c verified of
                      (Some out, log) \<Rightarrow> (out, log)
                    | (None, log) \<Rightarrow>
                        emit (log @ [CallPrintVerificationHeader imageRef bundleVerified,
                                     CallPrintVerification imageRef verified ''text''])
                          (images_loop env c co images))))"

text \<open>Lines 111 to 194: the verifier is wrapped and the images are gone through.\<close>

definition verify_images ::
  "exec_env \<Rightarrow> VerifyAttestationCommand \<Rightarrow> CheckOpts \<Rightarrow> Verifier option \<Rightarrow> string list \<Rightarrow>
     outcome \<times> event list" where
  "verify_images env c co pubKey images =
     images_loop env c
       (co\<lparr>SigVerifier := Some \<lparr>Verifier = WrapVerifier env pubKey\<rparr>\<rparr>) images"

text \<open>Lines 80 to 89.\<close>

definition check_opts :: "exec_env \<Rightarrow> VerifyAttestationCommand \<Rightarrow> RemoteOption list \<Rightarrow> CheckOpts" where
  "check_opts env c ociremoteOpts =
     (let co = \<lparr>RegistryClientOpts = ociremoteOpts, ClaimVerifier = None, co_RekorURL = [],
                RootCerts = None, SigVerifier = None\<rparr>;
          co = (if CheckClaims c then co\<lparr>ClaimVerifier := Some IntotoSubjectClaimVerifier\<rparr>
                else co)
      in if EnableExperimental env
         then co\<lparr>co_RekorURL := RekorURL c, RootCerts := Some (GetRoots env)\<rparr>
         else co)"

definition Exec :: "exec_env \<Rightarrow> VerifyAttestationCommand \<Rightarrow> string list \<Rightarrow> outcome \<times> event list" where
  "Exec env c images =
     (if length images = 0 then (Return (Some ErrHelp), [])
      else if \<not> OneOf [KeyRef c \<noteq> [], Sk c] \<and> \<not> EnableExperimental env
      then (Return (Some KeyParseError), [])
      else
        emit [CallClientOpts]
          (case ClientOpts env (RegistryOptions c) of
             Inl err \<Rightarrow> (Return (Some (Wrap err ''constructing client options'')), [])
           | Inr ociremoteOpts \<Rightarrow>
               emit (if EnableExperimental env then [CallGetRoots] else [])
                 (let co = check_opts env c ociremoteOpts; keyRef = KeyRef c in
                  if keyRef \<noteq> [] then
                    emit [CallPublicKeyFromKeyRef keyRef]
                      (case PublicKeyFromKeyRef env keyRef of
                         Inl err \<Rightarrow> (Return (Some (Wrap err ''loading public key'')), [])
                       | Inr pubKey \<Rightarrow> verify_images env c co (Some pubKey) images)
                  else if Sk c then
                    emit [CallGetKeyWithSlot (Slot c)]
                      (case GetKeyWithSlot env (Slot c) of
                         Inl err \<Rightarrow> (Return (Some (Wrap err ''opening piv token'')), [])
                       | Inr sk \<Rightarrow>
                           deferred [CallClose sk]
                             (emit [CallKeyVerifier sk]
                                (case Key_Verifier env sk of
                                   Inl err \<Rightarrow>
                                     (Return (Some (Wrap err ''initializing piv token verifier'')), [])
                                 | Inr pubKey \<Rightarrow> verify_images env c co (Some pubKey) images)))
                  else verify_images env c co None images)))"

section \<open>Notions used to state the properties\<close>

subsection \<open>Events of the hardware token\<close>

definition is_token_event :: "event \<Rightarrow> bool" where
  "is_token_event ev =
     (case ev of CallGetKeyWithSlot s \<Rightarrow> True | CallClose k \<Rightarrow> True | _ \<Rightarrow> False)"

definition is_Close :: "event \<Rightarrow> bool" where
  "is_Close ev = (case ev of CallClose k \<Rightarrow> True | _ \<Rightarrow> False)"

subsection \<open>Statements with another inner tag\<close>

text \<open>
  \<open>with_inner_tags f env\<close> is the environment in which every decoded statement carries
  the \<^verbatim>\<open>predicateType\<close> tag \<open>f\<close> gives it, and nothing else differs.
\<close>

definition retagged ::
  "(Statement \<Rightarrow> string) \<Rightarrow> (bytes \<Rightarrow> error + Statement) \<Rightarrow> bytes \<Rightarrow> error + Statement" where
  "retagged f unmarshal b =
     (case unmarshal b of
        Inl err \<Rightarrow> Inl err
      | Inr statement \<Rightarrow> Inr (statement\<lparr>header_PredicateType := f statement\<rparr>))"

definition with_inner_tags :: "(Statement \<Rightarrow> string) \<Rightarrow> exec_env \<Rightarrow> exec_env" where
  "with_inner_tags f env =
     env\<lparr>Unmarshal_Statement := retagged f (Unmarshal_Statement env),
         Unmarshal_LinkStatement := retagged f (Unmarshal_LinkStatement env),
         Unmarshal_ProvenanceStatement := retagged f (Unmarshal_ProvenanceStatement env),
         Unmarshal_SPDXStatement := retagged f (Unmarshal_SPDXStatement env)\<rparr>"

subsection \<open>Numbers of a JSON value\<close>

text \<open>
  A decoded value is free of float64 when no number in it went through the float
  conversion; \<open>Numbers\<close> are the texts of its \<^verbatim>\<open>json.Number\<close>s and \<open>literals\<close> the
  number literals of a syntax tree.
\<close>

fun float_free :: "jvalue \<Rightarrow> bool" where
  "float_free (JFloat f) = False"
| "float_free (JArray vs) = list_all float_free vs"
| "float_free (JObject m) = list_all (\<lambda>kv. float_free (snd kv)) m"
| "float_free v = True"

fun Numbers :: "jvalue \<Rightarrow> string list" where
  "Numbers (JNumber s) = [s]"
| "Numbers (JArray vs) = concat (map Numbers vs)"
| "Numbers (JObject m) = concat (map (\<lambda>kv. Numbers (snd kv)) m)"
| "Numbers v = []"

fun literals :: "raw \<Rightarrow> string list" where
  "literals (RNumber s) = [s]"
| "literals (RArray ts) = concat (map literals ts)"
| "literals (RObject kts) = concat (map (\<lambda>kt. literals (snd kt)) kts)"
| "literals t = []"

text \<open>
  The JSON literal of an integer, and the integer a literal of digits denotes, without a
  bound on its size.
\<close>

definition digit :: "nat \<Rightarrow> char" where
  "digit d = ''0123456789'' ! d"

function decimal_nat :: "nat \<Rightarrow> string" where
  "decimal_nat n = (if n < 10 then [digit n] else decimal_nat (n div 10) @ [digit (n mod 10)])"
  by pat_completeness auto
termination
  by (relation "measure (\<lambda>n. n)") auto

declare decimal_nat.simps [simp del]

definition decimal :: "int \<Rightarrow> string" where
  "decimal i = (if i < 0 then CHR ''-'' # decimal_nat (nat (- i)) else decimal_nat (nat i))"

definition is_digit :: "char \<Rightarrow> bool" where
  "is_digit ch = (48 \<le> (of_char ch :: nat) \<and> (of_char ch :: nat) \<le> 57)"

fun nat_of_digits :: "nat \<Rightarrow> string \<Rightarrow> nat option" where
  "nat_of_digits acc [] = Some acc"
| "nat_of_digits acc (ch # cs) =
     (if is_digit ch then nat_of_digits (10 * acc + (of_char ch - 48)) cs else None)"

definition integer_of_literal :: "string \<Rightarrow> int option" where
  "integer_of_literal s =
     (case s of
        [] \<Rightarrow> None
      | ch # cs \<Rightarrow>
          if ch = CHR ''-'' then
            (if cs = [] then None else map_option (\<lambda>n. - int n) (nat_of_digits 0 cs))
          else map_option int (nat_of_digits 0 s))"

section \<open>A concrete scenario\<close>

text \<open>
  One query engine and one registry, on which the theorems below are evaluated. The
  engine can load \<^verbatim>\<open>policy.rego\<close> only, and allows exactly the input
  \<^verbatim>\<open>{"a": 9223372036854775807}\<close>.
\<close>

definition allow_result :: Result where
  "allow_result =
     \<lparr>Expressions = [\<lparr>Value = JBool True, Text = ''data.signature.allow''\<rparr>], Bindings = []\<rparr>"

definition big_integer_body :: bytes where
  "big_integer_body = ''{'' @ [CHR 0x22] @ ''a'' @ [CHR 0x22] @ '': 9223372036854775807}''"

definition demo_rego_env :: rego_env where
  "demo_rego_env =
     \<lparr>scan = (\<lambda>b. if b = big_integer_body
                   then Inr (RObject [(''a'', RNumber ''9223372036854775807'')])
                   else if b = ''[1]'' then Inr (RArray [RNumber ''1''])
                   else Inl (LibError ''*json.SyntaxError'' ''unexpected end of JSON input'')),
      ParseFloat = (\<lambda>s. Inr (Float64 1 63)),
      PrepareForEval =
        (\<lambda>r. if Load r = [''policy.rego''] then Inr (PreparedEvalQuery r)
              else Inl (LibError ''loader.Errors''
                          ''1 error occurred during loading: no such file or directory'')),
      Eval = (\<lambda>q input. if input = JObject [(''a'', JNumber ''9223372036854775807'')]
                          then Inr [allow_result] else Inr [])\<rparr>"

text \<open>
  The registry holds, for \<^verbatim>\<open>example.com/app:v1\<close>, one provenance attestation and one
  custom attestation whose statement is tagged as a link and whose predicate is
  \<^verbatim>\<open>{"Data": "foo"}\<close>; no other reference can be fetched. The only hardware token
  opens, and fails to give a verifier.
\<close>

definition demo_verifier :: Verifier where
  "demo_verifier =
     \<lparr>Verifier_VerifySignature =
        (\<lambda>sig msg opts. if sig = Some ''signed envelope'' then None
                         else Some (Err ''invalid signature''))\<rparr>"

definition demo_statement :: Statement where
  "demo_statement =
     \<lparr>header_Type = ''https://in-toto.io/Statement/v0.1'',
      header_PredicateType = ''https://in-toto.io/Link/v1'',
      header_Subject = [\<lparr>Name = ''example.com/app'', Digest = [(''sha256'', ''0a1b'')]\<rparr>],
      Predicate = JObject [(''Data'', JString ''foo'')]\<rparr>"

definition demo_env :: exec_env where
  "demo_env =
     \<lparr>EnableExperimental = False,
      PredicateTypeMap =
        [''custom'' \<mapsto> ''cosign.sigstore.dev/attestation/v1'',
         ''link'' \<mapsto> ''https://in-toto.io/Link/v1'',
         ''slsaprovenance'' \<mapsto> ''https://slsa.dev/provenance/v0.1'',
         ''spdx'' \<mapsto> ''https://spdx.dev/Document''],
      ClientOpts = (\<lambda>ro. Inr [MkRemoteOption ''context'']),
      GetRoots = MkCertPool ''fulcio'',
      PublicKeyFromKeyRef =
        (\<lambda>k. if k = ''cosign.pub'' then Inr demo_verifier
              else Inl (Err ''open: no such file or directory'')),
      GetKeyWithSlot =
        (\<lambda>s. if s = ''signature'' then Inr (MkKey ''token'') else Inl (Err ''unknown slot'')),
      Key_Verifier = (\<lambda>k. Inl (Err ''unsupported key algorithm'')),
      WrapVerifier = (\<lambda>v. demo_verifier),
      ParseReference =
        (\<lambda>s. if s = [] then Inl (Err ''could not parse reference'') else Inr (MkReference s)),
      VerifyAttestations =
        (\<lambda>ref co. if ref = MkReference ''example.com/app:v1''
                   then Inr ([MkSignature ''slsa attestation'', MkSignature ''custom attestation''],
                             False)
                   else Inl (Err ''GET manifest: connection refused'')),
      Payload = (\<lambda>vp. case vp of MkSignature n \<Rightarrow> Inr n),
      Unmarshal_map =
        (\<lambda>b. if b = ''custom attestation''
              then Inr [''payloadType'' \<mapsto> JString ''cosign.sigstore.dev/attestation/v1'',
                        ''payload'' \<mapsto> JString ''Y3VzdG9tIHN0YXRlbWVudA=='']
              else if b = ''slsa attestation''
              then Inr [''payloadType'' \<mapsto> JString ''https://slsa.dev/provenance/v0.1'',
                        ''payload'' \<mapsto> JString ''c2xzYSBzdGF0ZW1lbnQ='']
              else Inl (Err ''invalid character'')),
      DecodeString =
        (\<lambda>s. if s = ''Y3VzdG9tIHN0YXRlbWVudA=='' then Inr ''custom statement''
              else if s = ''c2xzYSBzdGF0ZW1lbnQ='' then Inr ''slsa statement''
              else Inl (Err ''illegal base64 data'')),
      Unmarshal_Statement = (\<lambda>b. Inr demo_statement),
      Unmarshal_LinkStatement = (\<lambda>b. Inr demo_statement),
      Unmarshal_ProvenanceStatement = (\<lambda>b. Inr demo_statement),
      Unmarshal_SPDXStatement = (\<lambda>b. Inr demo_statement),
      Marshal =
        (\<lambda>v. if v = JObject [(''Data'', JString ''foo'')] then Inr ''{Data: foo}''
              else Inr ''null''),
      cue_ValidateJSON =
        (\<lambda>b policies. if b = ''{Data: foo}'' then None
                       else Some (Err ''Data: conflicting values''))\<rparr>"

definition demo_cmd :: VerifyAttestationCommand where
  "demo_cmd =
     \<lparr>RegistryOptions = MkRegistryOptions ''default'', CheckClaims = True,
      KeyRef = ''cosign.pub'', Sk = False, Slot = [], Output = ''json'', FulcioURL = [],
      RekorURL = [], PredicateType = ''custom'', Policies = [''policy.cue'']\<rparr>"

definition keyless_cmd :: VerifyAttestationCommand where
  "keyless_cmd = demo_cmd\<lparr>KeyRef := []\<rparr>"

definition token_cmd :: VerifyAttestationCommand where
  "token_cmd = demo_cmd\<lparr>KeyRef := [], Sk := True, Slot := ''signature''\<rparr>"

lemmas exec_defs = Exec_def verify_images_def check_opts_def verify_one_def
  switch_PredicateType_def validate_statement_def Marshal_bytes_def index_string_def
  string_eq_interface_def OneOf_def NOf_def PredicateCustom_def PredicateLink_def
  PredicateSLSA_def PredicateSPDX_def demo_env_def demo_cmd_def demo_statement_def
  keyless_cmd_def token_cmd_def

lemmas rego_defs = ValidateJSON_def Decode_def NewDecoder_def UseNumber_def rego_New_def
  convertNumber_def Allowed_def allow_result_def big_integer_body_def demo_rego_env_def

section \<open>The envelope-aware verifier\<close>

text \<open>
  C1. For every wrapped verifier, message stream and options list, the adapter's
  VerifySignature returns the same outcome for any two signature streams: the stream in
  the signature position is never handed to the wrapped verifier.
\<close>

theorem VerifySignature_ignores_signature_stream:
  "VerifySignature w s1 m opts = VerifySignature w s2 m opts"
  by (simp add: VerifySignature_def)

section \<open>The query-based policy evaluator\<close>

subsection \<open>The result of ValidateJSON\<close>

text \<open>
  C2. ValidateJSON returns nil if and only if the query's result set marks the input
  allowed: the sources were prepared, the input was decoded, the evaluation gave a result
  set, and that result set is allowed. Whenever the evaluation gives an empty result set,
  or any result set that is not allowed, it returns the error "rego validation failed".
\<close>

theorem ValidateJSON_nil_iff_allowed:
  "(ValidateJSON env jsonBody entrypoints = None \<longleftrightarrow>
      (\<exists>query input rs.
         PrepareForEval env (rego_New ''data.signature.allow'' entrypoints) = Inr query \<and>
         Decode env (UseNumber (NewDecoder jsonBody)) = Inr input \<and>
         Eval env query input = Inr rs \<and> Allowed rs)) \<and>
   (\<forall>query input rs.
      PrepareForEval env (rego_New ''data.signature.allow'' entrypoints) = Inr query \<and>
      Decode env (UseNumber (NewDecoder jsonBody)) = Inr input \<and>
      Eval env query input = Inr rs \<and> (rs = [] \<or> \<not> Allowed rs) \<longrightarrow>
      ValidateJSON env jsonBody entrypoints = Some (Err ''rego validation failed''))"
proof -
  have empty: "\<not> Allowed []"
    by (simp add: Allowed_def)
  show ?thesis
    using empty by (auto simp: ValidateJSON_def Let_def split: sum.splits if_splits)
qed

theorem ValidateJSON_nil_iff_allowed_witness:
  "ValidateJSON demo_rego_env big_integer_body [''policy.rego''] = None \<and>
   Eval demo_rego_env (PreparedEvalQuery (rego_New ''data.signature.allow'' [''policy.rego'']))
     (JArray [JNumber ''1'']) = Inr [] \<and>
   ValidateJSON demo_rego_env ''[1]'' [''policy.rego''] = Some (Err ''rego validation failed'')"
  using ValidateJSON_nil_iff_allowed[of demo_rego_env "''[1]''" "[''policy.rego'']"]
    ValidateJSON_nil_iff_allowed[of demo_rego_env big_integer_body "[''policy.rego'']"]
  by (simp add: rego_defs)



subsection \<open>Numbers in the decoded input\<close>

lemma below_ten: "d < 10 \<Longrightarrow> d \<in> {0, 1, 2, 3, 4, 5, 6, 7, 8, 9::nat}"
  by auto

lemma is_digit_digit: "d < 10 \<Longrightarrow> is_digit (digit d)"
  by (drule below_ten) (auto simp: is_digit_def digit_def)

lemma of_char_digit: "d < 10 \<Longrightarrow> (of_char (digit d) :: nat) - 48 = d"
  by (drule below_ten) (auto simp: digit_def)

lemma nat_of_digits_snoc:
  "d < 10 \<Longrightarrow> nat_of_digits acc (cs @ [digit d]) =
     map_option (\<lambda>a. 10 * a + d) (nat_of_digits acc cs)"
  by (induction cs arbitrary: acc) (simp_all add: is_digit_digit of_char_digit)

lemma nat_of_digits_decimal_nat: "nat_of_digits 0 (decimal_nat n) = Some n"
proof (induction n rule: decimal_nat.induct)
  case (1 n)
  show ?case
  proof (cases "n < 10")
    case True
    then show ?thesis
      by (subst decimal_nat.simps) (simp add: is_digit_digit of_char_digit)
  next
    case False
    with 1 show ?thesis
      by (subst decimal_nat.simps) (simp add: nat_of_digits_snoc)
  qed
qed

lemma decimal_nat_not_Nil: "decimal_nat n \<noteq> []"
  by (subst decimal_nat.simps) simp

lemma digit_not_minus:
  assumes "d < 10"
  shows "digit d \<noteq> CHR ''-''"
proof
  assume "digit d = CHR ''-''"
  then have "(of_char (digit d) :: nat) = of_char (CHR ''-'')"
    by (rule arg_cong)
  with assms of_char_digit[of d] is_digit_digit[of d] show False
    by (simp add: is_digit_def)
qed

lemma hd_decimal_nat: "hd (decimal_nat n) \<noteq> CHR ''-''"
proof (induction n rule: decimal_nat.induct)
  case (1 n)
  show ?case
  proof (cases "n < 10")
    case True
    then show ?thesis
      by (subst decimal_nat.simps) (simp add: digit_not_minus)
  next
    case False
    with 1 show ?thesis
      by (subst decimal_nat.simps) (simp add: decimal_nat_not_Nil)
  qed
qed

lemma integer_of_literal_decimal: "integer_of_literal (decimal n) = Some n"
proof (cases "n < 0")
  case True
  then show ?thesis
    by (simp add: integer_of_literal_def decimal_def decimal_nat_not_Nil nat_of_digits_decimal_nat)
next
  case False
  obtain ch cs where s: "decimal_nat (nat n) = ch # cs"
    using decimal_nat_not_Nil[of "nat n"] by (cases "decimal_nat (nat n)") auto
  have "ch \<noteq> CHR ''-''"
    using hd_decimal_nat[of "nat n"] s by simp
  with False s nat_of_digits_decimal_nat[of "nat n"] show ?thesis
    by (simp add: integer_of_literal_def decimal_def)
qed

lemma decimal_example: "decimal 9223372036854775807 = ''9223372036854775807''"
  by (simp add: decimal_def decimal_nat.simps digit_def)

lemma update_values: "kv \<in> set (AList.update k v m) \<Longrightarrow> kv = (k, v) \<or> kv \<in> set m"
  by (induction m) (auto split: if_splits)

text \<open>With \<^verbatim>\<open>UseNumber\<close> the conversion of a syntax tree cannot fail.\<close>

lemma interfaces_total:
  shows "un \<Longrightarrow> \<exists>v. valueInterface pf un t = Inr v"
    and "un \<Longrightarrow> \<exists>vs. arrayInterface pf un ts = Inr vs"
    and "un \<Longrightarrow> \<exists>m'. objectInterface pf un kts m = Inr m'"
proof (induction pf un t and pf un ts and pf un kts m
    rule: valueInterface_arrayInterface_objectInterface.induct)
  case (8 pf un t ts)
  then show ?case by (auto split: sum.splits)
next
  case (10 pf un k t kts m)
  then show ?case by (auto split: sum.splits)
qed (auto simp: convertNumber_def split: sum.splits)

text \<open>
  With \<^verbatim>\<open>UseNumber\<close> the result holds no float64, and each of its numbers is the text of
  a literal of the tree.
\<close>

lemma interfaces_exact:
  shows "un \<Longrightarrow> valueInterface pf un t = Inr v \<Longrightarrow>
           float_free v \<and> set (Numbers v) \<subseteq> set (literals t)"
    and "un \<Longrightarrow> arrayInterface pf un ts = Inr vs \<Longrightarrow>
           (\<forall>v \<in> set vs. float_free v) \<and>
           (\<Union>v \<in> set vs. set (Numbers v)) \<subseteq> (\<Union>t \<in> set ts. set (literals t))"
    and "un \<Longrightarrow> objectInterface pf un kts m = Inr m' \<Longrightarrow>
           (\<forall>kv \<in> set m. float_free (snd kv)) \<Longrightarrow>
           (\<forall>kv \<in> set m'. float_free (snd kv)) \<and>
           (\<Union>kv \<in> set m'. set (Numbers (snd kv))) \<subseteq>
             (\<Union>kv \<in> set m. set (Numbers (snd kv))) \<union> (\<Union>kt \<in> set kts. set (literals (snd kt)))"
proof (induction pf un t and pf un ts and pf un kts m arbitrary: v and vs and m'
    rule: valueInterface_arrayInterface_objectInterface.induct)
  case (3 pf un s)
  then show ?case by (auto simp: convertNumber_def)
next
  case (5 pf un ts)
  then show ?case by (auto simp: list_all_iff split: sum.splits)
next
  case (6 pf un kts)
  from 6(2,3) obtain m where m: "objectInterface pf un kts [] = Inr m" and v: "v = JObject m"
    by (auto split: sum.splits)
  from 6(1)[OF 6(2) m] v show ?case by (auto simp: list_all_iff)
next
  case (8 pf un t ts)
  from 8(3,4) obtain w ws where w: "valueInterface pf un t = Inr w"
    and ws: "arrayInterface pf un ts = Inr ws" and vs: "vs = w # ws"
    by (auto split: sum.splits)
  from 8(1)[OF 8(3) w] 8(2)[OF w 8(3) ws] vs show ?case by auto
next
  case (10 pf un k t kts m)
  from 10(3,4) obtain w where w: "valueInterface pf un t = Inr w"
    and rest: "objectInterface pf un kts (AList.update k w m) = Inr m'"
    by (auto split: sum.splits)
  have w_ok: "float_free w" "set (Numbers w) \<subseteq> set (literals t)"
    using 10(1)[OF 10(3) w] by auto
  have upd: "\<forall>kv \<in> set (AList.update k w m). float_free (snd kv)"
    using 10(5) w_ok(1) by (auto dest: update_values)
  let ?M' = "\<Union>kv \<in> set m'. set (Numbers (snd kv))"
  let ?U = "\<Union>kv \<in> set (AList.update k w m). set (Numbers (snd kv))"
  let ?M = "\<Union>kv \<in> set m. set (Numbers (snd kv))"
  let ?K = "\<Union>kt \<in> set kts. set (literals (snd kt))"
  have IH: "(\<forall>kv \<in> set m'. float_free (snd kv)) \<and> ?M' \<subseteq> ?U \<union> ?K"
    using 10(2)[OF w 10(3) rest upd] .
  have "?U \<subseteq> ?M \<union> set (literals t)"
    using w_ok(2) by (auto dest!: update_values)
  with IH have "?M' \<subseteq> ?M \<union> (set (literals t) \<union> ?K)"
    by blast
  with IH show ?case by simp
qed auto

text \<open>
  C7. Whatever JSON text the scanner accepts, the decode step of ValidateJSON succeeds
  with a value that holds no float64 and whose numbers are, digit for digit, literals of
  the text. For the input \<^verbatim>\<open>{"a": n}\<close>, any integer \<open>n\<close>, the value is the object whose
  member \<^verbatim>\<open>a\<close> is the literal of \<open>n\<close>, which denotes \<open>n\<close> itself; and this value is the
  one the query is evaluated on.
\<close>

theorem ValidateJSON_decodes_integers_exactly:
  assumes "scan env jsonBody = Inr t"
  shows "\<exists>input. Decode env (UseNumber (NewDecoder jsonBody)) = Inr input \<and>
           float_free input \<and> set (Numbers input) \<subseteq> set (literals t) \<and>
           (t = RObject [(''a'', RNumber (decimal n))] \<longrightarrow>
              input = JObject [(''a'', JNumber (decimal n))] \<and>
              integer_of_literal (decimal n) = Some n) \<and>
           (\<forall>query.
              PrepareForEval env (rego_New ''data.signature.allow'' entrypoints) = Inr query \<longrightarrow>
              ValidateJSON env jsonBody entrypoints =
                (case Eval env query input of
                   Inl err \<Rightarrow> Some (Lib err)
                 | Inr rs \<Rightarrow> if Allowed rs then None else Some (Err ''rego validation failed'')))"
proof -
  obtain input where input: "valueInterface (ParseFloat env) True t = Inr input"
    using interfaces_total(1)[of True "ParseFloat env" t] by auto
  have dec: "Decode env (UseNumber (NewDecoder jsonBody)) = Inr input"
    using assms input by (simp add: Decode_def UseNumber_def NewDecoder_def)
  have exact: "float_free input" "set (Numbers input) \<subseteq> set (literals t)"
    using interfaces_exact(1)[OF _ input] by simp_all
  have shape: "input = JObject [(''a'', JNumber (decimal n))]"
    if "t = RObject [(''a'', RNumber (decimal n))]"
    using input that by (simp add: convertNumber_def)
  have run: "ValidateJSON env jsonBody entrypoints =
      (case Eval env query input of
         Inl err \<Rightarrow> Some (Lib err)
       | Inr rs \<Rightarrow> if Allowed rs then None else Some (Err ''rego validation failed''))"
    if "PrepareForEval env (rego_New ''data.signature.allow'' entrypoints) = Inr query" for query
    using that dec by (simp add: ValidateJSON_def)
  show ?thesis
    using dec exact shape run integer_of_literal_decimal by blast
qed

theorem ValidateJSON_decodes_integers_exactly_witness:
  "scan demo_rego_env big_integer_body = Inr (RObject [(''a'', RNumber ''9223372036854775807'')]) \<and>
   Decode demo_rego_env (UseNumber (NewDecoder big_integer_body)) =
     Inr (JObject [(''a'', JNumber ''9223372036854775807'')]) \<and>
   integer_of_literal ''9223372036854775807'' = Some 9223372036854775807 \<and>
   ValidateJSON demo_rego_env big_integer_body [''policy.rego''] = None"
proof -
  have sc: "scan demo_rego_env big_integer_body =
      Inr (RObject [(''a'', RNumber (decimal 9223372036854775807))])"
    by (simp add: demo_rego_env_def decimal_example)
  have prep: "PrepareForEval demo_rego_env (rego_New ''data.signature.allow'' [''policy.rego'']) =
      Inr (PreparedEvalQuery (rego_New ''data.signature.allow'' [''policy.rego'']))"
    by (simp add: demo_rego_env_def rego_New_def)
  have ev: "Eval demo_rego_env q (JObject [(''a'', JNumber ''9223372036854775807'')]) =
      Inr [allow_result]" for q
    by (simp add: demo_rego_env_def)
  have al: "Allowed [allow_result]"
    by (simp add: Allowed_def allow_result_def)
  show ?thesis
    using ValidateJSON_decodes_integers_exactly[OF sc, of 9223372036854775807 "[''policy.rego'']"]
      sc prep ev al
    by (auto simp: decimal_example)
qed

section \<open>The verification command\<close>

subsection \<open>The call log\<close>

lemma fst_emit [simp]: "fst (emit evs r) = fst r"
  by (simp add: emit_def)

lemma snd_emit [simp]: "snd (emit evs r) = evs @ snd r"
  by (simp add: emit_def)

lemma emit_pair [simp]: "emit evs (a, l) = (a, evs @ l)"
  by (simp add: emit_def)

lemma fst_deferred [simp]: "fst (deferred evs r) = fst r"
  by (simp add: deferred_def)

lemma snd_deferred [simp]: "snd (deferred evs r) = snd r @ evs"
  by (simp add: deferred_def)

lemma deferred_pair [simp]: "deferred evs (a, l) = (a, l @ evs)"
  by (simp add: deferred_def)

subsection \<open>The configuration check\<close>

text \<open>
  C5. Whenever no key reference and no hardware token is given and the experimental flag
  is unset, Exec returns an error without a single call to a collaborator, so before any
  fetch, registry or key-loading call: the key configuration error, or, for an empty list
  of images, the usage error of the line before.
\<close>

theorem Exec_keyless_without_experimental:
  assumes "KeyRef c = []" and "\<not> Sk c" and "\<not> EnableExperimental env"
  shows "Exec env c images =
           (Return (Some (if images = [] then ErrHelp else KeyParseError)), [])"
  using assms by (simp add: Exec_def OneOf_def NOf_def)

theorem Exec_keyless_without_experimental_witness:
  "KeyRef keyless_cmd = [] \<and> \<not> Sk keyless_cmd \<and> \<not> EnableExperimental demo_env \<and>
   Exec demo_env keyless_cmd [''example.com/app:v1''] = (Return (Some KeyParseError), [])"
  using Exec_keyless_without_experimental[of keyless_cmd demo_env "[''example.com/app:v1'']"]
  by (simp add: keyless_cmd_def demo_cmd_def demo_env_def)

subsection \<open>One attestation\<close>

text \<open>
  C6. A verified attestation whose payloadType is not the identifier the table gives for
  the requested predicate type (or is missing) is skipped without an error: its payload is
  read and parsed as JSON, and nothing else is called for it (no base64 decoding, no
  statement parsing, no policy evaluation); the loop goes on with the next attestation.
\<close>

theorem mismatched_payloadType_is_skipped:
  assumes "Payload env vp = Inr payload"
    and "Unmarshal_map env payload = Inr payloadData"
    and "payloadData ''payloadType'' \<noteq>
           Some (JString (index_string (PredicateTypeMap env) (PredicateType c)))"
  shows "verify_one env c vp = (None, [CallPayload vp, CallUnmarshalMap payload]) \<and>
         verified_loop env c (vp # vps) =
           emit [CallPayload vp, CallUnmarshalMap payload] (verified_loop env c vps)"
  using assms by (simp add: verify_one_def string_eq_interface_def)

theorem mismatched_payloadType_is_skipped_witness:
  "index_string (PredicateTypeMap demo_env) (PredicateType demo_cmd) =
     ''cosign.sigstore.dev/attestation/v1'' \<and>
   verify_one demo_env demo_cmd (MkSignature ''slsa attestation'') =
     (None, [CallPayload (MkSignature ''slsa attestation''), CallUnmarshalMap ''slsa attestation''])"
proof -
  have a: "Payload demo_env (MkSignature ''slsa attestation'') = Inr ''slsa attestation''"
    by (simp add: demo_env_def)
  have b: "Unmarshal_map demo_env ''slsa attestation'' =
      Inr [''payloadType'' \<mapsto> JString ''https://slsa.dev/provenance/v0.1'',
           ''payload'' \<mapsto> JString ''c2xzYSBzdGF0ZW1lbnQ='']"
    by (simp add: demo_env_def)
  have t: "index_string (PredicateTypeMap demo_env) (PredicateType demo_cmd) =
      ''cosign.sigstore.dev/attestation/v1''"
    by (simp add: demo_env_def demo_cmd_def index_string_def)
  have c: "[''payloadType'' \<mapsto> JString ''https://slsa.dev/provenance/v0.1'',
            ''payload'' \<mapsto> JString ''c2xzYSBzdGF0ZW1lbnQ=''] ''payloadType'' \<noteq>
      Some (JString (index_string (PredicateTypeMap demo_env) (PredicateType demo_cmd)))"
    by (simp add: t)
  show ?thesis
    using mismatched_payloadType_is_skipped[OF a b c, of "[]"] t by simp
qed

text \<open>
  C8. For an attestation that passes the payloadType filter and decodes, the bytes handed
  to the policy evaluator are the marshalled Predicate field of the decoded statement
  (nil bytes should marshalling fail, its error being dropped): the statement's type, tag
  and subjects take no part in them.
\<close>

theorem evaluator_receives_predicate_only:
  assumes "Payload env vp = Inr payload"
    and "Unmarshal_map env payload = Inr payloadData"
    and "payloadData ''payloadType'' =
           Some (JString (index_string (PredicateTypeMap env) (PredicateType c)))"
    and "payloadData ''payload'' = Some (JString encoded)"
    and "DecodeString env encoded = Inr decodedPayload"
    and "PredicateType c = PredicateCustom \<and> Unmarshal_Statement env decodedPayload = Inr statement
       \<or> PredicateType c = PredicateLink \<and> Unmarshal_LinkStatement env decodedPayload = Inr statement
       \<or> PredicateType c = PredicateSLSA \<and>
            Unmarshal_ProvenanceStatement env decodedPayload = Inr statement
       \<or> PredicateType c = PredicateSPDX \<and> Unmarshal_SPDXStatement env decodedPayload = Inr statement"
  shows "snd (verify_one env c vp) =
           [CallPayload vp, CallUnmarshalMap payload, CallDecodeString encoded,
            CallUnmarshalStatement (PredicateType c) decodedPayload,
            CallMarshal (Predicate statement),
            CallValidateJSON (Marshal_bytes env (Predicate statement)) (Policies c)] \<and>
         fst (verify_one env c vp) =
           (case cue_ValidateJSON env (Marshal_bytes env (Predicate statement)) (Policies c) of
              Some err \<Rightarrow> Some (Return (Some err))
            | None \<Rightarrow> None)"
proof -
  have distinct: "PredicateLink \<noteq> PredicateCustom" "PredicateSLSA \<noteq> PredicateCustom"
    "PredicateSPDX \<noteq> PredicateCustom" "PredicateSLSA \<noteq> PredicateLink"
    "PredicateSPDX \<noteq> PredicateLink" "PredicateSPDX \<noteq> PredicateSLSA"
    by (simp_all add: PredicateCustom_def PredicateLink_def PredicateSLSA_def PredicateSPDX_def)
  have "switch_PredicateType env c decodedPayload =
          emit [CallUnmarshalStatement (PredicateType c) decodedPayload,
                CallMarshal (Predicate statement),
                CallValidateJSON (Marshal_bytes env (Predicate statement)) (Policies c)]
            (case cue_ValidateJSON env (Marshal_bytes env (Predicate statement)) (Policies c) of
               Some err \<Rightarrow> (Some (Return (Some err)), [])
             | None \<Rightarrow> (None, []))"
    using assms(6) distinct
    by (auto simp: switch_PredicateType_def validate_statement_def Let_def split: option.splits)
  then show ?thesis
    using assms(1-5)
    by (simp add: verify_one_def string_eq_interface_def split: option.splits)
qed

theorem evaluator_receives_predicate_only_witness:
  "Predicate demo_statement = JObject [(''Data'', JString ''foo'')] \<and>
   Marshal demo_env (JObject [(''Data'', JString ''foo'')]) = Inr ''{Data: foo}'' \<and>
   snd (verify_one demo_env demo_cmd (MkSignature ''custom attestation'')) =
     [CallPayload (MkSignature ''custom attestation''), CallUnmarshalMap ''custom attestation'',
      CallDecodeString ''Y3VzdG9tIHN0YXRlbWVudA=='',
      CallUnmarshalStatement ''custom'' ''custom statement'',
      CallMarshal (JObject [(''Data'', JString ''foo'')]),
      CallValidateJSON ''{Data: foo}'' [''policy.cue'']] \<and>
   fst (verify_one demo_env demo_cmd (MkSignature ''custom attestation'')) = None"
proof -
  have a: "Payload demo_env (MkSignature ''custom attestation'') = Inr ''custom attestation''"
    by (simp add: demo_env_def)
  have b: "Unmarshal_map demo_env ''custom attestation'' =
      Inr [''payloadType'' \<mapsto> JString ''cosign.sigstore.dev/attestation/v1'',
           ''payload'' \<mapsto> JString ''Y3VzdG9tIHN0YXRlbWVudA=='']"
    by (simp add: demo_env_def)
  have c: "[''payloadType'' \<mapsto> JString ''cosign.sigstore.dev/attestation/v1'',
            ''payload'' \<mapsto> JString ''Y3VzdG9tIHN0YXRlbWVudA==''] ''payloadType'' =
      Some (JString (index_string (PredicateTypeMap demo_env) (PredicateType demo_cmd)))"
    by (simp add: demo_env_def demo_cmd_def index_string_def)
  have d: "[''payloadType'' \<mapsto> JString ''cosign.sigstore.dev/attestation/v1'',
            ''payload'' \<mapsto> JString ''Y3VzdG9tIHN0YXRlbWVudA==''] ''payload'' =
      Some (JString ''Y3VzdG9tIHN0YXRlbWVudA=='')"
    by simp
  have e: "DecodeString demo_env ''Y3VzdG9tIHN0YXRlbWVudA=='' = Inr ''custom statement''"
    by (simp add: demo_env_def)
  have f: "PredicateType demo_cmd = PredicateCustom \<and>
      Unmarshal_Statement demo_env ''custom statement'' = Inr demo_statement"
    by (simp add: demo_env_def demo_cmd_def PredicateCustom_def)
  have g: "PredicateType demo_cmd = PredicateCustom \<and>
        Unmarshal_Statement demo_env ''custom statement'' = Inr demo_statement
     \<or> PredicateType demo_cmd = PredicateLink \<and>
        Unmarshal_LinkStatement demo_env ''custom statement'' = Inr demo_statement
     \<or> PredicateType demo_cmd = PredicateSLSA \<and>
        Unmarshal_ProvenanceStatement demo_env ''custom statement'' = Inr demo_statement
     \<or> PredicateType demo_cmd = PredicateSPDX \<and>
        Unmarshal_SPDXStatement demo_env ''custom statement'' = Inr demo_statement"
    using f by simp
  have m: "Marshal demo_env (JObject [(''Data'', JString ''foo'')]) = Inr ''{Data: foo}''"
    by (simp add: demo_env_def)
  have p: "Predicate demo_statement = JObject [(''Data'', JString ''foo'')]"
    by (simp add: demo_statement_def)
  have v: "cue_ValidateJSON demo_env ''{Data: foo}'' ps = None" for ps
    by (simp add: demo_env_def)
  have ty: "PredicateType demo_cmd = ''custom''" "Policies demo_cmd = [''policy.cue'']"
    by (simp_all add: demo_cmd_def)
  show ?thesis
    using evaluator_receives_predicate_only[OF a b c d e g] m p v ty
    by (simp add: Marshal_bytes_def)
qed

subsection \<open>The inner tag of a statement\<close>

lemma validate_statement_retagged:
  "validate_statement (with_inner_tags f env) c (retagged f u) d = validate_statement env c u d"
  by (simp add: validate_statement_def retagged_def with_inner_tags_def Marshal_bytes_def Let_def
      split: sum.splits)

lemma switch_retagged:
  "switch_PredicateType (with_inner_tags f env) c d = switch_PredicateType env c d"
proof -
  have sel: "Unmarshal_Statement (with_inner_tags f env) = retagged f (Unmarshal_Statement env)"
    "Unmarshal_LinkStatement (with_inner_tags f env) = retagged f (Unmarshal_LinkStatement env)"
    "Unmarshal_ProvenanceStatement (with_inner_tags f env) =
       retagged f (Unmarshal_ProvenanceStatement env)"
    "Unmarshal_SPDXStatement (with_inner_tags f env) = retagged f (Unmarshal_SPDXStatement env)"
    by (simp_all add: with_inner_tags_def)
  show ?thesis
    by (simp add: switch_PredicateType_def sel validate_statement_retagged)
qed

lemma verify_one_retagged:
  "verify_one (with_inner_tags f env) c vp = verify_one env c vp"
proof -
  have sel: "Payload (with_inner_tags f env) = Payload env"
    "Unmarshal_map (with_inner_tags f env) = Unmarshal_map env"
    "PredicateTypeMap (with_inner_tags f env) = PredicateTypeMap env"
    "DecodeString (with_inner_tags f env) = DecodeString env"
    by (simp_all add: with_inner_tags_def)
  show ?thesis
    by (simp add: verify_one_def sel switch_retagged
        cong: sum.case_cong option.case_cong jvalue.case_cong if_cong)
qed

lemma verified_loop_retagged:
  "verified_loop (with_inner_tags f env) c vps = verified_loop env c vps"
  by (induction vps) (simp_all add: verify_one_retagged cong: prod.case_cong option.case_cong)

lemma images_loop_retagged:
  "images_loop (with_inner_tags f env) c co images = images_loop env c co images"
proof (induction images)
  case Nil
  show ?case by simp
next
  case (Cons imageRef images)
  have sel: "ParseReference (with_inner_tags f env) = ParseReference env"
    "VerifyAttestations (with_inner_tags f env) = VerifyAttestations env"
    by (simp_all add: with_inner_tags_def)
  show ?case
    by (simp add: sel verified_loop_retagged Cons.IH
        cong: sum.case_cong prod.case_cong option.case_cong)
qed

text \<open>
  C10. The case of the switch is chosen by the requested predicate type alone, before any
  statement is decoded, and the tag inside the decoded statement is never read: whatever
  tags the decoded statements carry, Exec ends the same way after the same calls with the
  same arguments. A statement whose own tag differs from the requested type is therefore
  decoded and evaluated as the requested type.
\<close>

theorem Exec_never_reads_inner_tag:
  "Exec (with_inner_tags f env) c images = Exec env c images"
proof -
  have sel: "EnableExperimental (with_inner_tags f env) = EnableExperimental env"
    "ClientOpts (with_inner_tags f env) = ClientOpts env"
    "GetRoots (with_inner_tags f env) = GetRoots env"
    "PublicKeyFromKeyRef (with_inner_tags f env) = PublicKeyFromKeyRef env"
    "GetKeyWithSlot (with_inner_tags f env) = GetKeyWithSlot env"
    "Key_Verifier (with_inner_tags f env) = Key_Verifier env"
    "WrapVerifier (with_inner_tags f env) = WrapVerifier env"
    by (simp_all add: with_inner_tags_def)
  have co: "check_opts (with_inner_tags f env) c opts = check_opts env c opts" for opts
    by (simp add: check_opts_def sel Let_def)
  have vi: "verify_images (with_inner_tags f env) c co pk images = verify_images env c co pk images"
    for co pk
    by (simp add: verify_images_def sel images_loop_retagged)
  show ?thesis
    by (simp add: Exec_def sel co vi Let_def cong: sum.case_cong if_cong)
qed

theorem Exec_never_reads_inner_tag_witness:
  "header_PredicateType demo_statement = ''https://in-toto.io/Link/v1'' \<and>
   index_string (PredicateTypeMap demo_env) (PredicateType demo_cmd) =
     ''cosign.sigstore.dev/attestation/v1'' \<and>
   Exec (with_inner_tags (\<lambda>statement. ''cosign.sigstore.dev/attestation/v1'') demo_env) demo_cmd
     [''example.com/app:v1''] =
   (Return None,
    [CallClientOpts, CallPublicKeyFromKeyRef ''cosign.pub'',
     CallParseReference ''example.com/app:v1'',
     CallVerifyAttestations (MkReference ''example.com/app:v1''),
     CallPayload (MkSignature ''slsa attestation''), CallUnmarshalMap ''slsa attestation'',
     CallPayload (MkSignature ''custom attestation''), CallUnmarshalMap ''custom attestation'',
     CallDecodeString ''Y3VzdG9tIHN0YXRlbWVudA=='',
     CallUnmarshalStatement ''custom'' ''custom statement'',
     CallMarshal (JObject [(''Data'', JString ''foo'')]),
     CallValidateJSON ''{Data: foo}'' [''policy.cue''],
     CallPrintVerificationHeader ''example.com/app:v1'' False,
     CallPrintVerification ''example.com/app:v1''
       [MkSignature ''slsa attestation'', MkSignature ''custom attestation''] ''text''])"
proof -
  have run: "Exec demo_env demo_cmd [''example.com/app:v1''] =
    (Return None,
     [CallClientOpts, CallPublicKeyFromKeyRef ''cosign.pub'',
      CallParseReference ''example.com/app:v1'',
      CallVerifyAttestations (MkReference ''example.com/app:v1''),
      CallPayload (MkSignature ''slsa attestation''), CallUnmarshalMap ''slsa attestation'',
      CallPayload (MkSignature ''custom attestation''), CallUnmarshalMap ''custom attestation'',
      CallDecodeString ''Y3VzdG9tIHN0YXRlbWVudA=='',
      CallUnmarshalStatement ''custom'' ''custom statement'',
      CallMarshal (JObject [(''Data'', JString ''foo'')]),
      CallValidateJSON ''{Data: foo}'' [''policy.cue''],
      CallPrintVerificationHeader ''example.com/app:v1'' False,
      CallPrintVerification ''example.com/app:v1''
        [MkSignature ''slsa attestation'', MkSignature ''custom attestation''] ''text''])"
    by (simp add: exec_defs)
  have tags: "header_PredicateType demo_statement = ''https://in-toto.io/Link/v1''"
    "index_string (PredicateTypeMap demo_env) (PredicateType demo_cmd) =
       ''cosign.sigstore.dev/attestation/v1''"
    by (simp_all add: demo_statement_def demo_env_def demo_cmd_def index_string_def)
  show ?thesis
    using Exec_never_reads_inner_tag[of "\<lambda>statement. ''cosign.sigstore.dev/attestation/v1''"
        demo_env demo_cmd "[''example.com/app:v1'']"] run tags
    by simp
qed

subsection \<open>A failing verification\<close>

lemma validate_statement_no_nil:
  "fst (validate_statement env c u d) \<noteq> Some (Return None)"
  by (simp add: validate_statement_def Let_def split: sum.splits option.splits)

lemma verify_one_no_nil: "fst (verify_one env c vp) \<noteq> Some (Return None)"
  by (simp add: verify_one_def switch_PredicateType_def validate_statement_no_nil
      split: sum.splits option.splits jvalue.splits)

lemma verified_loop_no_nil: "verified_loop env c vps \<noteq> (Some (Return None), log)"
proof (induction vps arbitrary: log)
  case Nil
  show ?case by simp
next
  case (Cons vp vps)
  show ?case
    using verify_one_no_nil[of env c vp] Cons.IH
    by (cases "verify_one env c vp"; cases "verified_loop env c vps")
      (auto split: option.splits)
qed

text \<open>The loop over a list in two parts: the second part is reached when the first ends with nil.\<close>

lemma images_loop_append:
  "images_loop env c co (xs @ ys) =
     (if fst (images_loop env c co xs) = Return None
      then emit (snd (images_loop env c co xs)) (images_loop env c co ys)
      else images_loop env c co xs)"
proof (induction xs)
  case Nil
  show ?case by (simp add: emit_def)
next
  case (Cons x xs)
  show ?case
    by (auto simp: Cons.IH emit_def verified_loop_no_nil
        split: sum.splits prod.splits option.splits)
qed

text \<open>
  C3, as amended. When the verification of the attestations of one image reference fails,
  Exec returns that error at once: the references after it in the list are never
  processed, so the run ends as if the list stopped at the failing reference, and when the
  references before it went through, the loop returns the error right after the failed
  call.
\<close>

theorem failed_verification_ends_run:
  assumes "ParseReference env imageRef = Inr ref"
    and "\<forall>co. VerifyAttestations env ref co = Inl err"
  shows "Exec env c (earlier @ imageRef # rest) = Exec env c (earlier @ [imageRef]) \<and>
         (images_loop env c co earlier = (Return None, log) \<longrightarrow>
            images_loop env c co (earlier @ imageRef # rest) =
              (Return (Some err), log @ [CallParseReference imageRef, CallVerifyAttestations ref]))"
proof -
  have one: "images_loop env c co' (imageRef # more) =
      (Return (Some err), [CallParseReference imageRef, CallVerifyAttestations ref])" for co' more
    using assms by simp
  have loop: "images_loop env c co' (earlier @ imageRef # rest) =
      images_loop env c co' (earlier @ [imageRef])" for co'
    by (simp add: images_loop_append one del: images_loop.simps)
  have vi: "verify_images env c co' pk (earlier @ imageRef # rest) =
      verify_images env c co' pk (earlier @ [imageRef])" for co' pk
    by (simp add: verify_images_def loop del: images_loop.simps)
  have "Exec env c (earlier @ imageRef # rest) = Exec env c (earlier @ [imageRef])"
    by (simp add: Exec_def vi Let_def cong: sum.case_cong if_cong)
  moreover have "images_loop env c co earlier = (Return None, log) \<longrightarrow>
      images_loop env c co (earlier @ imageRef # rest) =
        (Return (Some err), log @ [CallParseReference imageRef, CallVerifyAttestations ref])"
    by (simp add: images_loop_append one del: images_loop.simps)
  ultimately show ?thesis by simp
qed

theorem failed_verification_ends_run_witness:
  "ParseReference demo_env ''registry.invalid/app:v1'' = Inr (MkReference ''registry.invalid/app:v1'') \<and>
   (\<forall>co. VerifyAttestations demo_env (MkReference ''registry.invalid/app:v1'') co =
      Inl (Err ''GET manifest: connection refused'')) \<and>
   Exec demo_env demo_cmd
     [''example.com/app:v1'', ''registry.invalid/app:v1'', ''example.com/app:v1''] =
   Exec demo_env demo_cmd [''example.com/app:v1'', ''registry.invalid/app:v1''] \<and>
   fst (Exec demo_env demo_cmd [''example.com/app:v1'', ''registry.invalid/app:v1'']) =
     Return (Some (Err ''GET manifest: connection refused''))"
proof -
  have a: "ParseReference demo_env ''registry.invalid/app:v1'' =
      Inr (MkReference ''registry.invalid/app:v1'')"
    by (simp add: demo_env_def)
  have b: "\<forall>co. VerifyAttestations demo_env (MkReference ''registry.invalid/app:v1'') co =
      Inl (Err ''GET manifest: connection refused'')"
    by (simp add: demo_env_def)
  have r: "fst (Exec demo_env demo_cmd [''example.com/app:v1'', ''registry.invalid/app:v1'']) =
      Return (Some (Err ''GET manifest: connection refused''))"
    by (simp add: exec_defs)
  show ?thesis
    using failed_verification_ends_run[OF a b, of demo_cmd "[''example.com/app:v1'']"
        "[''example.com/app:v1'']"] a b r
    by simp
qed

text \<open>
  C3 as stated fails: the first of two references cannot be fetched, and the run ends
  there with the fetch error; the second reference, which can be fetched, is neither
  parsed nor verified.
\<close>

theorem later_reference_not_processed:
  "Exec demo_env demo_cmd [''registry.invalid/app:v1'', ''example.com/app:v1''] =
     (Return (Some (Err ''GET manifest: connection refused'')),
      [CallClientOpts, CallPublicKeyFromKeyRef ''cosign.pub'',
       CallParseReference ''registry.invalid/app:v1'',
       CallVerifyAttestations (MkReference ''registry.invalid/app:v1'')]) \<and>
   CallVerifyAttestations (MkReference ''example.com/app:v1'') \<notin>
     set (snd (Exec demo_env demo_cmd [''registry.invalid/app:v1'', ''example.com/app:v1''])) \<and>
   fst (Exec demo_env demo_cmd [''example.com/app:v1'']) = Return None"
  by (simp add: exec_defs)

subsection \<open>The hardware token\<close>

lemma validate_statement_no_token:
  "ev \<in> set (snd (validate_statement env c u d)) \<Longrightarrow> \<not> is_token_event ev"
  by (auto simp: validate_statement_def Let_def is_token_event_def split: sum.splits option.splits)

lemma switch_no_token:
  "ev \<in> set (snd (switch_PredicateType env c d)) \<Longrightarrow> \<not> is_token_event ev"
  by (auto simp: switch_PredicateType_def split: if_splits dest: validate_statement_no_token)

lemma verify_one_no_token:
  "ev \<in> set (snd (verify_one env c vp)) \<Longrightarrow> \<not> is_token_event ev"
  by (auto simp: verify_one_def is_token_event_def
      split: sum.splits option.splits jvalue.splits if_splits dest: switch_no_token)

lemma verified_loop_no_token:
  "ev \<in> set (snd (verified_loop env c vps)) \<Longrightarrow> \<not> is_token_event ev"
proof (induction vps)
  case Nil
  then show ?case by simp
next
  case (Cons vp vps)
  show ?case
  proof (cases "verify_one env c vp")
    case (Pair r log)
    with Cons verify_one_no_token[of _ env c vp] show ?thesis
      by (cases r) auto
  qed
qed

lemma images_loop_no_token:
  "ev \<in> set (snd (images_loop env c co images)) \<Longrightarrow> \<not> is_token_event ev"
proof (induction images)
  case Nil
  then show ?case by simp
next
  case (Cons imageRef images)
  show ?case
  proof (cases "ParseReference env imageRef")
    case (Inl err)
    with Cons.prems show ?thesis by (simp add: is_token_event_def)
  next
    case (Inr ref)
    note ref = this
    show ?thesis
    proof (cases "VerifyAttestations env ref co")
      case (Inl err)
      with Cons.prems ref show ?thesis by (auto simp: is_token_event_def)
    next
      case (Inr vb)
      obtain verified bundleVerified where vb: "vb = (verified, bundleVerified)"
        by (cases vb)
      obtain r log where vl: "verified_loop env c verified = (r, log)"
        by (cases "verified_loop env c verified")
      have log: "\<And>e. e \<in> set log \<Longrightarrow> \<not> is_token_event e"
        using verified_loop_no_token[of _ env c verified] vl by simp
      show ?thesis
      proof (cases r)
        case None
        with Cons ref Inr vb vl log show ?thesis
          by (auto simp: is_token_event_def)
      next
        case (Some out)
        with Cons.prems ref Inr vb vl log show ?thesis
          by (auto simp: is_token_event_def)
      qed
    qed
  qed
qed

lemma verify_images_no_token:
  "ev \<in> set (snd (verify_images env c co pk images)) \<Longrightarrow> \<not> is_token_event ev"
  by (simp add: verify_images_def images_loop_no_token)

lemma filter_is_Close_no_token:
  "(\<And>ev. ev \<in> set log \<Longrightarrow> \<not> is_token_event ev) \<Longrightarrow> filter is_Close log = []"
proof -
  assume no: "\<And>ev. ev \<in> set log \<Longrightarrow> \<not> is_token_event ev"
  have "\<not> is_Close ev" if "ev \<in> set log" for ev
    using no[OF that] by (cases ev) (simp_all add: is_Close_def is_token_event_def)
  then show ?thesis
    by (simp add: filter_empty_conv)
qed

text \<open>
  C9. On every run of Exec in which the hardware token is opened with success, also when
  the token then fails to give a verifier, the token is closed exactly once, and the
  closing is the last call before Exec is left.
\<close>

theorem token_closed_exactly_once:
  assumes "CallGetKeyWithSlot slot \<in> set (snd (Exec env c images))"
    and "GetKeyWithSlot env slot = Inr sk"
  shows "filter is_Close (snd (Exec env c images)) = [CallClose sk] \<and>
         last (snd (Exec env c images)) = CallClose sk"
proof -
  have none: "CallGetKeyWithSlot slot \<notin> set (snd (verify_images env c co pk images))" for co pk
    using verify_images_no_token[of "CallGetKeyWithSlot slot" env c co pk images]
    by (auto simp: is_token_event_def)
  have nf: "filter is_Close (snd (verify_images env c co pk images)) = []" for co pk
    by (rule filter_is_Close_no_token) (rule verify_images_no_token)
  show ?thesis
    using assms none nf
    by (auto simp: Exec_def Let_def is_Close_def split: if_splits sum.splits)
qed

theorem token_closed_exactly_once_witness:
  "CallGetKeyWithSlot ''signature'' \<in> set (snd (Exec demo_env token_cmd [''example.com/app:v1''])) \<and>
   GetKeyWithSlot demo_env ''signature'' = Inr (MkKey ''token'') \<and>
   Exec demo_env token_cmd [''example.com/app:v1''] =
     (Return (Some (Wrap (Err ''unsupported key algorithm'') ''initializing piv token verifier'')),
      [CallClientOpts, CallGetKeyWithSlot ''signature'', CallKeyVerifier (MkKey ''token''),
       CallClose (MkKey ''token'')]) \<and>
   filter is_Close (snd (Exec demo_env token_cmd [''example.com/app:v1''])) =
     [CallClose (MkKey ''token'')]"
proof -
  have run: "Exec demo_env token_cmd [''example.com/app:v1''] =
     (Return (Some (Wrap (Err ''unsupported key algorithm'') ''initializing piv token verifier'')),
      [CallClientOpts, CallGetKeyWithSlot ''signature'', CallKeyVerifier (MkKey ''token''),
       CallClose (MkKey ''token'')])"
    by (simp add: exec_defs)
  have a: "CallGetKeyWithSlot ''signature'' \<in>
      set (snd (Exec demo_env token_cmd [''example.com/app:v1'']))"
    by (simp add: run)
  have b: "GetKeyWithSlot demo_env ''signature'' = Inr (MkKey ''token'')"
    by (simp add: demo_env_def)
  show ?thesis
    using token_closed_exactly_once[OF a b] a b run by simp
qed

end
